theory Spec2Isabelle
  imports Main
begin

section \<open>The script \<open>app.py\<close> and the libraries it calls\<close>

text \<open>
  \<open>app.py\<close> is a straight-line script: it calls \<open>load_dotenv()\<close>, reads two
  variables with \<open>os.getenv\<close>, builds a \<open>twilio.rest.Client\<close>, calls
  \<open>client.calls.create\<close> with two more variables and a fixed TwiML string, and prints the
  \<open>sid\<close> of the call that comes back. The libraries are not part of the repository, so
  the Twilio client is a parameter of the model (any constructor and any \<open>create\<close>, each
  free to raise), and every effect of the script is an event of a trace.
\<close>

subsection \<open>Environment\<close>

text \<open>\<open>os.environ\<close>: a dictionary from names to strings. A variable that is set to the
  empty string is \<open>Some ''''\<close>, one that is not set is \<open>None\<close>.\<close>

type_synonym environ = "string \<rightharpoonup> string"

text \<open>\<open>os.getenv(key)\<close> is \<open>os.environ.get(key, None)\<close>: Python's \<open>None\<close> for a
  variable that is not set, and no exception.\<close>

definition getenv :: "environ \<Rightarrow> string \<Rightarrow> string option" where
  "getenv e key = e key"

text \<open>Modelled from the spec: \<open>load_dotenv\<close> belongs to the python-dotenv package, which is
  not in the repository. It is given the parsed \<open>.env\<close> file as a dictionary and sets each of
  its variables in \<open>os.environ\<close>, skipping a variable that is already set there unless
  \<open>override\<close> is true. The script calls it with no argument, so \<open>override\<close> is False.\<close>

definition load_dotenv :: "bool \<Rightarrow> environ \<Rightarrow> environ \<Rightarrow> environ" where
  "load_dotenv override dotenv_file e =
     (\<lambda>k. case dotenv_file k of
            None \<Rightarrow> e k
          | Some v \<Rightarrow> (case e k of
                        None \<Rightarrow> Some v
                      | Some old \<Rightarrow> if override then Some v else Some old))"

subsection \<open>The Twilio client\<close>

text \<open>The keyword arguments of \<open>client.calls.create\<close> as the script passes them. \<open>to\<close> and
  \<open>from_\<close> are results of \<open>os.getenv\<close>, so they may be \<open>None\<close>. The field for
  \<open>from_\<close> is written \<open>from'\<close>: a name cannot end with an underscore here.\<close>

record request =
  to :: "string option"
  from' :: "string option"
  twiml :: string

text \<open>The call record that \<open>create\<close> returns; the script reads its \<open>sid\<close> only.\<close>

record call =
  sid :: string

datatype exn = Raised string

text \<open>The library as the script uses it: the constructor \<open>Client(account_sid, auth_token)\<close>
  and the method \<open>calls.create\<close> of the client it returns. Either may raise (\<open>Inl\<close>).\<close>

record 'c twilio =
  Client :: "string option \<Rightarrow> string option \<Rightarrow> exn + 'c"
  calls_create :: "'c \<Rightarrow> request \<Rightarrow> exn + call"

subsection \<open>Standard output\<close>

text \<open>\<open>print(*args)\<close> with the default \<open>sep=' '\<close> and \<open>end='\n'\<close>, on strings.\<close>

fun print :: "string list \<Rightarrow> string" where
  "print [] = [CHR 0x0A]"
| "print [a] = a @ [CHR 0x0A]"
| "print (a # b # rest) = a @ '' '' @ print (b # rest)"

subsection \<open>The script\<close>

text \<open>What a run does, in the order it does it.\<close>

datatype event =
    Load_dotenv
  | Getenv string
  | Client_init "string option" "string option"
  | Calls_create request
  | Calls_returned call
  | Print string

text \<open>How the process ends: the script runs to its last line, or an exception that nothing
  catches ends it.\<close>

datatype outcome = Exit_ok | Uncaught exn

text \<open>The exit status of the interpreter: 0 at the end of the script, 1 after an uncaught
  exception.\<close>

definition exit_status :: "outcome \<Rightarrow> nat" where
  "exit_status out = (case out of Exit_ok \<Rightarrow> 0 | Uncaught x \<Rightarrow> 1)"

text \<open>The script, line by line. There is no \<open>try\<close> and no \<open>if\<close> in it: the only ways out
  are the two library calls raising and the end of the file.\<close>

definition main :: "'c twilio \<Rightarrow> environ \<Rightarrow> environ \<Rightarrow> event list \<times> outcome" where
  "main lib dotenv_file environ0 =
     (let e = load_dotenv False dotenv_file environ0;
          account_sid = getenv e ''account_sid'';
          auth_token = getenv e ''auth_token'';
          t1 = [Load_dotenv, Getenv ''account_sid'', Getenv ''auth_token'',
                Client_init account_sid auth_token]
      in case Client lib account_sid auth_token of
           Inl x \<Rightarrow> (t1, Uncaught x)
         | Inr client \<Rightarrow>
             (let req = \<lparr>to = getenv e ''to'', from' = getenv e ''from_'',
                         twiml = ''<Response><Say>HOW are you</Say></Response>''\<rparr>;
                  t2 = t1 @ [Getenv ''to'', Getenv ''from_'', Calls_create req]
              in case calls_create lib client req of
                   Inl x \<Rightarrow> (t2, Uncaught x)
                 | Inr c \<Rightarrow>
                     (t2 @ [Calls_returned c, Print (print [''Call SID:'', sid c])],
                      Exit_ok)))"

subsection \<open>Reading a trace\<close>

text \<open>The requests submitted to the provider, in order.\<close>

fun requests_of :: "event list \<Rightarrow> request list" where
  "requests_of [] = []"
| "requests_of (Calls_create r # es) = r # requests_of es"
| "requests_of (_ # es) = requests_of es"

text \<open>The credentials given to the client constructor, in order.\<close>

fun client_args_of :: "event list \<Rightarrow> (string option \<times> string option) list" where
  "client_args_of [] = []"
| "client_args_of (Client_init a b # es) = (a, b) # client_args_of es"
| "client_args_of (_ # es) = client_args_of es"

text \<open>The pieces of text written by \<open>print\<close>, in order, and standard output as a whole.\<close>

fun prints_of :: "event list \<Rightarrow> string list" where
  "prints_of [] = []"
| "prints_of (Print s # es) = s # prints_of es"
| "prints_of (_ # es) = prints_of es"

definition stdout_of :: "event list \<Rightarrow> string" where
  "stdout_of es = concat (prints_of es)"

text \<open>The call records that \<open>create\<close> returned, in order.\<close>

fun returns_of :: "event list \<Rightarrow> call list" where
  "returns_of [] = []"
| "returns_of (Calls_returned c # es) = c # returns_of es"
| "returns_of (_ # es) = returns_of es"

text \<open>The operations of a trace by their place in the script: loading the environment,
  building the client, submitting the request, the request returning, printing. A variable
  read is not one of them.\<close>

fun ranks_of :: "event list \<Rightarrow> nat list" where
  "ranks_of [] = []"
| "ranks_of (Load_dotenv # es) = 0 # ranks_of es"
| "ranks_of (Getenv k # es) = ranks_of es"
| "ranks_of (Client_init a b # es) = 1 # ranks_of es"
| "ranks_of (Calls_create r # es) = 2 # ranks_of es"
| "ranks_of (Calls_returned c # es) = 3 # ranks_of es"
| "ranks_of (Print s # es) = 4 # ranks_of es"

text \<open>No \<open>print\<close> happens before the first return of a call-creation request.\<close>

fun no_print_before_return :: "event list \<Rightarrow> bool" where
  "no_print_before_return [] = True"
| "no_print_before_return (Print s # es) = False"
| "no_print_before_return (Calls_returned c # es) = True"
| "no_print_before_return (_ # es) = no_print_before_return es"

subsection \<open>Incomplete configuration\<close>

text \<open>A value as \<open>os.getenv\<close> returns it is missing (\<open>None\<close>) or the empty string.\<close>

definition missing_or_empty :: "string option \<Rightarrow> bool" where
  "missing_or_empty v = (case v of None \<Rightarrow> True | Some s \<Rightarrow> s = [])"

text \<open>One of the four variables the script reads is missing or empty.\<close>

definition config_incomplete :: "environ \<Rightarrow> bool" where
  "config_incomplete e =
     (missing_or_empty (getenv e ''account_sid'') \<or> missing_or_empty (getenv e ''auth_token'')
      \<or> missing_or_empty (getenv e ''to'') \<or> missing_or_empty (getenv e ''from_''))"

text \<open>The library raises on what the script gives it when it reads environment \<open>e\<close>: the
  constructor on the two credentials, or \<open>create\<close> on the request.\<close>

definition library_raises :: "'c twilio \<Rightarrow> environ \<Rightarrow> bool" where
  "library_raises lib e =
     (case Client lib (getenv e ''account_sid'') (getenv e ''auth_token'') of
        Inl x \<Rightarrow> True
      | Inr client \<Rightarrow>
          (case calls_create lib client
                  \<lparr>to = getenv e ''to'', from' = getenv e ''from_'',
                   twiml = ''<Response><Say>HOW are you</Say></Response>''\<rparr> of
             Inl x \<Rightarrow> True
           | Inr c \<Rightarrow> False))"

subsection \<open>Libraries and environments to run the script on\<close>

text \<open>A library (or a mocked provider) that accepts whatever it is given.\<close>

definition accept_any :: "unit twilio" where
  "accept_any =
     \<lparr>Client = (\<lambda>a b. Inr ()),
      calls_create = (\<lambda>c r. Inr \<lparr>sid = ''CA7d1f''\<rparr>)\<rparr>"

text \<open>A provider that rejects every call-creation request.\<close>

definition reject_call :: "unit twilio" where
  "reject_call =
     \<lparr>Client = (\<lambda>a b. Inr ()),
      calls_create = (\<lambda>c r. Inl (Raised ''invalid phone number''))\<rparr>"

text \<open>A library that checks what it is given: the constructor raises on a missing or empty
  credential, \<open>create\<close> on a missing or empty number.\<close>

definition validating :: "unit twilio" where
  "validating =
     \<lparr>Client = (\<lambda>a b. if missing_or_empty a \<or> missing_or_empty b
                       then Inl (Raised ''credentials are required'') else Inr ()),
      calls_create = (\<lambda>c r. if missing_or_empty (to r) \<or> missing_or_empty (from' r)
                             then Inl (Raised ''a number is required'')
                             else Inr \<lparr>sid = ''CA7d1f''\<rparr>)\<rparr>"

text \<open>An environment with the four variables set, one where \<open>to\<close> is not set, one
  where \<open>account_sid\<close> is not set, and a \<open>.env\<close> file.\<close>

definition valid_env :: environ where
  "valid_env = [''account_sid'' \<mapsto> ''AC01'', ''auth_token'' \<mapsto> ''secret'',
                ''to'' \<mapsto> ''+15550100'', ''from_'' \<mapsto> ''+15550199'']"

definition no_to_env :: environ where
  "no_to_env = [''account_sid'' \<mapsto> ''AC01'', ''auth_token'' \<mapsto> ''secret'',
                ''from_'' \<mapsto> ''+15550199'']"

definition no_sid_env :: environ where
  "no_sid_env = [''auth_token'' \<mapsto> ''secret'', ''to'' \<mapsto> ''+15550100'',
                 ''from_'' \<mapsto> ''+15550199'']"

definition dotenv_example :: environ where
  "dotenv_example = [''to'' \<mapsto> ''+15550123'', ''auth_token'' \<mapsto> ''from-file'']"

section \<open>Properties\<close>

subsection \<open>The three ways a run can go\<close>

lemma print_call_sid: "print [''Call SID:'', s] = ''Call SID: '' @ s @ [CHR 0x0A]"
  by simp

lemma main_client_raises:
  assumes "Client lib (getenv (load_dotenv False dotenv_file environ0) ''account_sid'')
                      (getenv (load_dotenv False dotenv_file environ0) ''auth_token'') = Inl x"
  shows "main lib dotenv_file environ0 =
           ([Load_dotenv, Getenv ''account_sid'', Getenv ''auth_token'',
             Client_init (getenv (load_dotenv False dotenv_file environ0) ''account_sid'')
                         (getenv (load_dotenv False dotenv_file environ0) ''auth_token'')],
            Uncaught x)"
  using assms by (simp add: main_def Let_def)

lemma main_create_raises:
  assumes "Client lib (getenv (load_dotenv False dotenv_file environ0) ''account_sid'')
                      (getenv (load_dotenv False dotenv_file environ0) ''auth_token'') = Inr client"
    and "calls_create lib client
           \<lparr>to = getenv (load_dotenv False dotenv_file environ0) ''to'',
            from' = getenv (load_dotenv False dotenv_file environ0) ''from_'',
            twiml = ''<Response><Say>HOW are you</Say></Response>''\<rparr> = Inl x"
  shows "main lib dotenv_file environ0 =
           ([Load_dotenv, Getenv ''account_sid'', Getenv ''auth_token'',
             Client_init (getenv (load_dotenv False dotenv_file environ0) ''account_sid'')
                         (getenv (load_dotenv False dotenv_file environ0) ''auth_token''),
             Getenv ''to'', Getenv ''from_'',
             Calls_create
               \<lparr>to = getenv (load_dotenv False dotenv_file environ0) ''to'',
                from' = getenv (load_dotenv False dotenv_file environ0) ''from_'',
                twiml = ''<Response><Say>HOW are you</Say></Response>''\<rparr>],
            Uncaught x)"
  using assms by (simp add: main_def Let_def)

lemma main_returns:
  assumes "Client lib (getenv (load_dotenv False dotenv_file environ0) ''account_sid'')
                      (getenv (load_dotenv False dotenv_file environ0) ''auth_token'') = Inr client"
    and "calls_create lib client
           \<lparr>to = getenv (load_dotenv False dotenv_file environ0) ''to'',
            from' = getenv (load_dotenv False dotenv_file environ0) ''from_'',
            twiml = ''<Response><Say>HOW are you</Say></Response>''\<rparr> = Inr c"
  shows "main lib dotenv_file environ0 =
           ([Load_dotenv, Getenv ''account_sid'', Getenv ''auth_token'',
             Client_init (getenv (load_dotenv False dotenv_file environ0) ''account_sid'')
                         (getenv (load_dotenv False dotenv_file environ0) ''auth_token''),
             Getenv ''to'', Getenv ''from_'',
             Calls_create
               \<lparr>to = getenv (load_dotenv False dotenv_file environ0) ''to'',
                from' = getenv (load_dotenv False dotenv_file environ0) ''from_'',
                twiml = ''<Response><Say>HOW are you</Say></Response>''\<rparr>,
             Calls_returned c, Print (''Call SID: '' @ sid c @ [CHR 0x0A])],
            Exit_ok)"
  using assms by (simp add: main_def Let_def)

lemma load_dotenv_no_file: "load_dotenv override Map.empty e = e"
  by (simp add: load_dotenv_def)

lemma valid_env_values:
  "getenv valid_env ''account_sid'' = Some ''AC01''"
  "getenv valid_env ''auth_token'' = Some ''secret''"
  "getenv valid_env ''to'' = Some ''+15550100''"
  "getenv valid_env ''from_'' = Some ''+15550199''"
  by (simp_all add: getenv_def valid_env_def)

lemma no_sid_env_values:
  "getenv no_sid_env ''account_sid'' = None"
  "getenv no_sid_env ''auth_token'' = Some ''secret''"
  "getenv no_sid_env ''to'' = Some ''+15550100''"
  "getenv no_sid_env ''from_'' = Some ''+15550199''"
  by (simp_all add: getenv_def no_sid_env_def)

lemma no_to_env_values:
  "getenv no_to_env ''account_sid'' = Some ''AC01''"
  "getenv no_to_env ''auth_token'' = Some ''secret''"
  "getenv no_to_env ''to'' = None"
  "getenv no_to_env ''from_'' = Some ''+15550199''"
  by (simp_all add: getenv_def no_to_env_def)

subsection \<open>What is sent and what is printed\<close>

text \<open>
  C1. Whatever the environment, the \<open>.env\<close> file and the library, every call-creation
  request of a run carries as \<open>twiml\<close> exactly the string
  \<open><Response><Say>HOW are you</Say></Response>\<close>: the run submits no request when the
  client constructor raises, and otherwise one request, with that \<open>twiml\<close>.
\<close>

theorem twiml_fixed:
  "map twiml (requests_of (fst (main lib dotenv_file environ0))) =
     (case Client lib (getenv (load_dotenv False dotenv_file environ0) ''account_sid'')
                      (getenv (load_dotenv False dotenv_file environ0) ''auth_token'') of
        Inl x \<Rightarrow> []
      | Inr client \<Rightarrow> [''<Response><Say>HOW are you</Say></Response>''])"
  by (simp add: main_def Let_def split: sum.splits)

text \<open>
  C2. When the client is built and the call-creation request returns a call record \<open>c\<close>,
  the run prints once, standard output is the text \<open>Call SID: \<close> followed by the \<open>sid\<close>
  of \<open>c\<close> and a newline, and the process ends with exit status 0. That text is one line
  when the identifier holds no newline.
\<close>

theorem call_sid_printed:
  assumes "Client lib (getenv (load_dotenv False dotenv_file environ0) ''account_sid'')
                      (getenv (load_dotenv False dotenv_file environ0) ''auth_token'') = Inr client"
    and "calls_create lib client
           \<lparr>to = getenv (load_dotenv False dotenv_file environ0) ''to'',
            from' = getenv (load_dotenv False dotenv_file environ0) ''from_'',
            twiml = ''<Response><Say>HOW are you</Say></Response>''\<rparr> = Inr c"
  shows "prints_of (fst (main lib dotenv_file environ0)) = [''Call SID: '' @ sid c @ [CHR 0x0A]]
       \<and> stdout_of (fst (main lib dotenv_file environ0)) = ''Call SID: '' @ sid c @ [CHR 0x0A]
       \<and> snd (main lib dotenv_file environ0) = Exit_ok
       \<and> exit_status (snd (main lib dotenv_file environ0)) = 0
       \<and> (CHR 0x0A \<notin> set (sid c) \<longrightarrow>
            count_list (stdout_of (fst (main lib dotenv_file environ0))) (CHR 0x0A) = 1)"
proof -
  have nl: "CHR 0x0A \<notin> set s \<Longrightarrow> count_list s (CHR 0x0A) = 0" for s :: string
    by (induction s) auto
  show ?thesis
    unfolding main_returns [OF assms]
    by (simp add: stdout_of_def exit_status_def nl)
qed

theorem call_sid_printed_witness:
  "stdout_of (fst (main accept_any Map.empty valid_env)) = ''Call SID: CA7d1f'' @ [CHR 0x0A]
   \<and> exit_status (snd (main accept_any Map.empty valid_env)) = 0
   \<and> count_list (stdout_of (fst (main accept_any Map.empty valid_env))) (CHR 0x0A) = 1"
proof -
  have a: "Client accept_any (getenv (load_dotenv False Map.empty valid_env) ''account_sid'')
             (getenv (load_dotenv False Map.empty valid_env) ''auth_token'') = Inr ()"
    by (simp add: accept_any_def)
  have b: "calls_create accept_any ()
             \<lparr>to = getenv (load_dotenv False Map.empty valid_env) ''to'',
              from' = getenv (load_dotenv False Map.empty valid_env) ''from_'',
              twiml = ''<Response><Say>HOW are you</Say></Response>''\<rparr> = Inr \<lparr>sid = ''CA7d1f''\<rparr>"
    by (simp add: accept_any_def)
  show ?thesis
    using call_sid_printed [OF a b] by (simp add: exit_status_def)
qed

text \<open>
  C3. The client constructor is called once, with the values of \<open>account_sid\<close> and
  \<open>auth_token\<close> as \<open>os.getenv\<close> returns them, and the request (when the constructor
  returns) has as \<open>to\<close> the value of \<open>to\<close> and as origin the value of \<open>from_\<close>. The values
  are the results of the lookups themselves: \<open>None\<close> for a variable that is not set (no
  default), the string as it is otherwise (no validation). With no \<open>.env\<close> file a lookup
  is a lookup in the process environment.
\<close>

theorem config_passed_through:
  "client_args_of (fst (main lib dotenv_file environ0)) =
     [(getenv (load_dotenv False dotenv_file environ0) ''account_sid'',
       getenv (load_dotenv False dotenv_file environ0) ''auth_token'')]
   \<and> map (\<lambda>r. (to r, from' r)) (requests_of (fst (main lib dotenv_file environ0))) =
       (case Client lib (getenv (load_dotenv False dotenv_file environ0) ''account_sid'')
                        (getenv (load_dotenv False dotenv_file environ0) ''auth_token'') of
          Inl x \<Rightarrow> []
        | Inr client \<Rightarrow>
            [(getenv (load_dotenv False dotenv_file environ0) ''to'',
              getenv (load_dotenv False dotenv_file environ0) ''from_'')])
   \<and> getenv (load_dotenv False Map.empty environ0) key = environ0 key"
  by (simp add: main_def Let_def load_dotenv_no_file getenv_def split: sum.splits)

subsection \<open>Failures\<close>

text \<open>
  C4. When the call-creation request raises, the exception is the outcome of the run
  (nothing catches it), the exit status is 1, and nothing has been printed: standard
  output is empty.
\<close>

theorem create_error_uncaught:
  assumes "Client lib (getenv (load_dotenv False dotenv_file environ0) ''account_sid'')
                      (getenv (load_dotenv False dotenv_file environ0) ''auth_token'') = Inr client"
    and "calls_create lib client
           \<lparr>to = getenv (load_dotenv False dotenv_file environ0) ''to'',
            from' = getenv (load_dotenv False dotenv_file environ0) ''from_'',
            twiml = ''<Response><Say>HOW are you</Say></Response>''\<rparr> = Inl x"
  shows "snd (main lib dotenv_file environ0) = Uncaught x
       \<and> exit_status (snd (main lib dotenv_file environ0)) = 1
       \<and> prints_of (fst (main lib dotenv_file environ0)) = []
       \<and> stdout_of (fst (main lib dotenv_file environ0)) = []"
  unfolding main_create_raises [OF assms]
  by (simp add: stdout_of_def exit_status_def)

theorem create_error_uncaught_witness:
  "snd (main reject_call Map.empty valid_env) = Uncaught (Raised ''invalid phone number'')
   \<and> exit_status (snd (main reject_call Map.empty valid_env)) = 1
   \<and> stdout_of (fst (main reject_call Map.empty valid_env)) = []"
proof -
  have a: "Client reject_call (getenv (load_dotenv False Map.empty valid_env) ''account_sid'')
             (getenv (load_dotenv False Map.empty valid_env) ''auth_token'') = Inr ()"
    by (simp add: reject_call_def)
  have b: "calls_create reject_call ()
             \<lparr>to = getenv (load_dotenv False Map.empty valid_env) ''to'',
              from' = getenv (load_dotenv False Map.empty valid_env) ''from_'',
              twiml = ''<Response><Say>HOW are you</Say></Response>''\<rparr> =
           Inl (Raised ''invalid phone number'')"
    by (simp add: reject_call_def)
  show ?thesis
    using create_error_uncaught [OF a b] by (simp add: exit_status_def)
qed

text \<open>
  C5, as the spec states it, does not hold of the script: with \<open>account_sid\<close> not set
  and a library that accepts what it is given, the constructor receives \<open>None\<close>, the
  request is submitted, and the run prints its line and ends with status 0.
\<close>

theorem incomplete_config_counterexample:
  "config_incomplete (load_dotenv False Map.empty no_sid_env)
   \<and> client_args_of (fst (main accept_any Map.empty no_sid_env)) = [(None, Some ''secret'')]
   \<and> snd (main accept_any Map.empty no_sid_env) = Exit_ok
   \<and> exit_status (snd (main accept_any Map.empty no_sid_env)) = 0
   \<and> stdout_of (fst (main accept_any Map.empty no_sid_env)) = ''Call SID: CA7d1f'' @ [CHR 0x0A]"
  by (simp add: config_incomplete_def missing_or_empty_def load_dotenv_no_file no_sid_env_values
      main_def Let_def accept_any_def stdout_of_def exit_status_def)

text \<open>
  C5, amended. In a run where one of the four variables is missing or empty, the script
  hands the value to the library as it is, and whether the run fails is the library's
  decision: the run ends with a non-zero status exactly when the client constructor or the
  call-creation request raises, and then no request has returned and nothing has been
  printed; otherwise the line is printed.
\<close>

theorem incomplete_config_fails_with_library:
  assumes "config_incomplete (load_dotenv False dotenv_file environ0)"
  shows "(exit_status (snd (main lib dotenv_file environ0)) \<noteq> 0) =
           library_raises lib (load_dotenv False dotenv_file environ0)
       \<and> (stdout_of (fst (main lib dotenv_file environ0)) = []) =
           library_raises lib (load_dotenv False dotenv_file environ0)
       \<and> (returns_of (fst (main lib dotenv_file environ0)) = []) =
           library_raises lib (load_dotenv False dotenv_file environ0)"
  by (simp add: main_def Let_def library_raises_def stdout_of_def exit_status_def
      split: sum.splits)

theorem incomplete_config_fails_with_library_witness:
  "config_incomplete (load_dotenv False Map.empty no_to_env)
   \<and> library_raises validating (load_dotenv False Map.empty no_to_env)
   \<and> exit_status (snd (main validating Map.empty no_to_env)) \<noteq> 0
   \<and> stdout_of (fst (main validating Map.empty no_to_env)) = []
   \<and> returns_of (fst (main validating Map.empty no_to_env)) = []"
proof -
  have a: "config_incomplete (load_dotenv False Map.empty no_to_env)"
    by (simp add: config_incomplete_def missing_or_empty_def load_dotenv_no_file
        no_to_env_values)
  have b: "library_raises validating (load_dotenv False Map.empty no_to_env)"
    by (simp add: library_raises_def validating_def missing_or_empty_def load_dotenv_no_file
        no_to_env_values)
  show ?thesis
    using incomplete_config_fails_with_library [OF a, of validating] a b by simp
qed

text \<open>
  C9. The script has no check of its own. A variable that is set neither in the process
  environment nor in the \<open>.env\<close> file reaches the library as \<open>None\<close>: \<open>account_sid\<close> and
  \<open>auth_token\<close> as arguments of the client constructor, \<open>to\<close> and \<open>from_\<close> as arguments of
  the call-creation request. A run ends with an exception only when the constructor or
  the request raised it, and that exception is the outcome; with a library that never
  raises, every run ends normally, whatever the configuration.
\<close>

theorem no_check_in_script:
  "(environ0 ''account_sid'' = None \<and> dotenv_file ''account_sid'' = None \<longrightarrow>
      map fst (client_args_of (fst (main lib dotenv_file environ0))) = [None])
   \<and> (environ0 ''auth_token'' = None \<and> dotenv_file ''auth_token'' = None \<longrightarrow>
      map snd (client_args_of (fst (main lib dotenv_file environ0))) = [None])
   \<and> (\<forall>client.
        Client lib (getenv (load_dotenv False dotenv_file environ0) ''account_sid'')
                   (getenv (load_dotenv False dotenv_file environ0) ''auth_token'') = Inr client \<longrightarrow>
        (environ0 ''to'' = None \<and> dotenv_file ''to'' = None \<longrightarrow>
           map to (requests_of (fst (main lib dotenv_file environ0))) = [None])
        \<and> (environ0 ''from_'' = None \<and> dotenv_file ''from_'' = None \<longrightarrow>
           map from' (requests_of (fst (main lib dotenv_file environ0))) = [None]))
   \<and> snd (main lib dotenv_file environ0) =
       (case Client lib (getenv (load_dotenv False dotenv_file environ0) ''account_sid'')
                        (getenv (load_dotenv False dotenv_file environ0) ''auth_token'') of
          Inl x \<Rightarrow> Uncaught x
        | Inr client \<Rightarrow>
            (case calls_create lib client
                    \<lparr>to = getenv (load_dotenv False dotenv_file environ0) ''to'',
                     from' = getenv (load_dotenv False dotenv_file environ0) ''from_'',
                     twiml = ''<Response><Say>HOW are you</Say></Response>''\<rparr> of
               Inl x \<Rightarrow> Uncaught x
             | Inr c \<Rightarrow> Exit_ok))
   \<and> ((\<forall>a b. \<exists>client. Client lib a b = Inr client)
        \<and> (\<forall>client r. \<exists>c. calls_create lib client r = Inr c) \<longrightarrow>
      snd (main lib dotenv_file environ0) = Exit_ok)"
proof (intro conjI)
  show "environ0 ''account_sid'' = None \<and> dotenv_file ''account_sid'' = None \<longrightarrow>
      map fst (client_args_of (fst (main lib dotenv_file environ0))) = [None]"
    by (simp add: main_def Let_def getenv_def load_dotenv_def split: sum.splits)
  show "environ0 ''auth_token'' = None \<and> dotenv_file ''auth_token'' = None \<longrightarrow>
      map snd (client_args_of (fst (main lib dotenv_file environ0))) = [None]"
    by (simp add: main_def Let_def getenv_def load_dotenv_def split: sum.splits)
  show "\<forall>client.
        Client lib (getenv (load_dotenv False dotenv_file environ0) ''account_sid'')
                   (getenv (load_dotenv False dotenv_file environ0) ''auth_token'') = Inr client \<longrightarrow>
        (environ0 ''to'' = None \<and> dotenv_file ''to'' = None \<longrightarrow>
           map to (requests_of (fst (main lib dotenv_file environ0))) = [None])
        \<and> (environ0 ''from_'' = None \<and> dotenv_file ''from_'' = None \<longrightarrow>
           map from' (requests_of (fst (main lib dotenv_file environ0))) = [None])"
    by (simp add: main_def Let_def getenv_def load_dotenv_def split: sum.splits)
  show "snd (main lib dotenv_file environ0) =
       (case Client lib (getenv (load_dotenv False dotenv_file environ0) ''account_sid'')
                        (getenv (load_dotenv False dotenv_file environ0) ''auth_token'') of
          Inl x \<Rightarrow> Uncaught x
        | Inr client \<Rightarrow>
            (case calls_create lib client
                    \<lparr>to = getenv (load_dotenv False dotenv_file environ0) ''to'',
                     from' = getenv (load_dotenv False dotenv_file environ0) ''from_'',
                     twiml = ''<Response><Say>HOW are you</Say></Response>''\<rparr> of
               Inl x \<Rightarrow> Uncaught x
             | Inr c \<Rightarrow> Exit_ok))"
    by (simp add: main_def Let_def split: sum.splits)
  show "(\<forall>a b. \<exists>client. Client lib a b = Inr client)
        \<and> (\<forall>client r. \<exists>c. calls_create lib client r = Inr c) \<longrightarrow>
      snd (main lib dotenv_file environ0) = Exit_ok"
  proof
    assume h: "(\<forall>a b. \<exists>client. Client lib a b = Inr client)
        \<and> (\<forall>client r. \<exists>c. calls_create lib client r = Inr c)"
    obtain client where a:
      "Client lib (getenv (load_dotenv False dotenv_file environ0) ''account_sid'')
                  (getenv (load_dotenv False dotenv_file environ0) ''auth_token'') = Inr client"
      using h by blast
    obtain c where b:
      "calls_create lib client
           \<lparr>to = getenv (load_dotenv False dotenv_file environ0) ''to'',
            from' = getenv (load_dotenv False dotenv_file environ0) ''from_'',
            twiml = ''<Response><Say>HOW are you</Say></Response>''\<rparr> = Inr c"
      using h by blast
    show "snd (main lib dotenv_file environ0) = Exit_ok"
      by (simp add: main_returns [OF a b])
  qed
qed

theorem no_check_in_script_witness:
  "map fst (client_args_of (fst (main accept_any Map.empty Map.empty))) = [None]
   \<and> map snd (client_args_of (fst (main accept_any Map.empty Map.empty))) = [None]
   \<and> map to (requests_of (fst (main accept_any Map.empty Map.empty))) = [None]
   \<and> map from' (requests_of (fst (main accept_any Map.empty Map.empty))) = [None]
   \<and> snd (main accept_any Map.empty Map.empty) = Exit_ok"
proof -
  have a: "Client accept_any (getenv (load_dotenv False Map.empty Map.empty) ''account_sid'')
             (getenv (load_dotenv False Map.empty Map.empty) ''auth_token'') = Inr ()"
    by (simp add: accept_any_def)
  have b: "(\<forall>a b. \<exists>client. Client accept_any a b = Inr client)
        \<and> (\<forall>client r. \<exists>c. calls_create accept_any client r = Inr c)"
    by (simp add: accept_any_def)
  show ?thesis
    using no_check_in_script [of Map.empty Map.empty accept_any] a b
    by (simp add: accept_any_def)
qed

subsection \<open>Order and number of the operations\<close>

text \<open>
  C6. The operations of a run are an initial part of the sequence: load the environment,
  build the client, submit the request, the request returns, print; each at most once, in
  that order, none left out before the last one, and the first two in every run. No
  \<open>print\<close> comes before the return of the request. The trace is one of three: up to the
  constructor when it raises, up to the request when that raises, and the whole sequence
  otherwise (\<open>to\<close> and \<open>from_\<close> are looked up after the client is built, as arguments of the
  request).
\<close>

theorem operations_in_order:
  "ranks_of (fst (main lib dotenv_file environ0)) =
     [0 ..< length (ranks_of (fst (main lib dotenv_file environ0)))]
   \<and> 2 \<le> length (ranks_of (fst (main lib dotenv_file environ0)))
   \<and> no_print_before_return (fst (main lib dotenv_file environ0))
   \<and> fst (main lib dotenv_file environ0) =
       (case Client lib (getenv (load_dotenv False dotenv_file environ0) ''account_sid'')
                        (getenv (load_dotenv False dotenv_file environ0) ''auth_token'') of
          Inl x \<Rightarrow>
            [Load_dotenv, Getenv ''account_sid'', Getenv ''auth_token'',
             Client_init (getenv (load_dotenv False dotenv_file environ0) ''account_sid'')
                         (getenv (load_dotenv False dotenv_file environ0) ''auth_token'')]
        | Inr client \<Rightarrow>
            [Load_dotenv, Getenv ''account_sid'', Getenv ''auth_token'',
             Client_init (getenv (load_dotenv False dotenv_file environ0) ''account_sid'')
                         (getenv (load_dotenv False dotenv_file environ0) ''auth_token''),
             Getenv ''to'', Getenv ''from_'',
             Calls_create
               \<lparr>to = getenv (load_dotenv False dotenv_file environ0) ''to'',
                from' = getenv (load_dotenv False dotenv_file environ0) ''from_'',
                twiml = ''<Response><Say>HOW are you</Say></Response>''\<rparr>]
            @ (case calls_create lib client
                      \<lparr>to = getenv (load_dotenv False dotenv_file environ0) ''to'',
                       from' = getenv (load_dotenv False dotenv_file environ0) ''from_'',
                       twiml = ''<Response><Say>HOW are you</Say></Response>''\<rparr> of
                 Inl x \<Rightarrow> []
               | Inr c \<Rightarrow> [Calls_returned c, Print (''Call SID: '' @ sid c @ [CHR 0x0A])]))"
proof -
  have five: "[0 ..< 5] = [0, 1, 2, 3, 4::nat]"
    by (simp add: upt_rec)
  have three: "[0 ..< 3] = [0, 1, 2::nat]"
    by (simp add: upt_rec)
  have two: "[0 ..< 2] = [0, 1::nat]"
    by (simp add: upt_rec)
  show ?thesis
    by (simp add: main_def Let_def five three two split: sum.splits)
qed

text \<open>
  C7, as the spec states it, does not hold of every run: when the provider rejects the
  request, the run has submitted one request and printed no line.
\<close>

theorem one_request_one_line_counterexample:
  "length (requests_of (fst (main reject_call Map.empty valid_env))) = 1
   \<and> length (prints_of (fst (main reject_call Map.empty valid_env))) = 0
   \<and> stdout_of (fst (main reject_call Map.empty valid_env)) = []"
  by (simp add: main_def Let_def reject_call_def stdout_of_def)

text \<open>
  C7, amended. A run submits at most one call-creation request and prints at most once,
  and exactly one request and one line when it ends normally; its trace is then nine
  events, the five operations of the script once each and the four variable reads. Two runs on the same configuration in both of
  which the client is built (whatever the provider answers in each) submit two requests
  that are equal, each made of \<open>to\<close>, the origin and \<open>twiml\<close> only: nothing in the
  request tells the second from the first.
\<close>

theorem one_request_one_line:
  "length (requests_of (fst (main lib dotenv_file environ0))) \<le> 1
   \<and> length (prints_of (fst (main lib dotenv_file environ0))) \<le> 1
   \<and> (snd (main lib dotenv_file environ0) = Exit_ok \<longrightarrow>
        length (requests_of (fst (main lib dotenv_file environ0))) = 1
        \<and> length (prints_of (fst (main lib dotenv_file environ0))) = 1
        \<and> length (fst (main lib dotenv_file environ0)) = 9
        \<and> ranks_of (fst (main lib dotenv_file environ0)) = [0, 1, 2, 3, 4])
   \<and> ((\<exists>client. Client lib (getenv (load_dotenv False dotenv_file environ0) ''account_sid'')
          (getenv (load_dotenv False dotenv_file environ0) ''auth_token'') = Inr client)
        \<and> (\<exists>client. Client lib2 (getenv (load_dotenv False dotenv_file environ0) ''account_sid'')
          (getenv (load_dotenv False dotenv_file environ0) ''auth_token'') = Inr client) \<longrightarrow>
        requests_of (fst (main lib dotenv_file environ0))
          @ requests_of (fst (main lib2 dotenv_file environ0)) =
        [\<lparr>to = getenv (load_dotenv False dotenv_file environ0) ''to'',
          from' = getenv (load_dotenv False dotenv_file environ0) ''from_'',
          twiml = ''<Response><Say>HOW are you</Say></Response>''\<rparr>,
         \<lparr>to = getenv (load_dotenv False dotenv_file environ0) ''to'',
          from' = getenv (load_dotenv False dotenv_file environ0) ''from_'',
          twiml = ''<Response><Say>HOW are you</Say></Response>''\<rparr>])"
proof (intro conjI)
  show "length (requests_of (fst (main lib dotenv_file environ0))) \<le> 1"
    by (simp add: main_def Let_def split: sum.splits)
  show "length (prints_of (fst (main lib dotenv_file environ0))) \<le> 1"
    by (simp add: main_def Let_def split: sum.splits)
  show "snd (main lib dotenv_file environ0) = Exit_ok \<longrightarrow>
        length (requests_of (fst (main lib dotenv_file environ0))) = 1
        \<and> length (prints_of (fst (main lib dotenv_file environ0))) = 1
        \<and> length (fst (main lib dotenv_file environ0)) = 9
        \<and> ranks_of (fst (main lib dotenv_file environ0)) = [0, 1, 2, 3, 4]"
    by (simp add: main_def Let_def split: sum.splits)
  show "(\<exists>client. Client lib (getenv (load_dotenv False dotenv_file environ0) ''account_sid'')
          (getenv (load_dotenv False dotenv_file environ0) ''auth_token'') = Inr client)
        \<and> (\<exists>client. Client lib2 (getenv (load_dotenv False dotenv_file environ0) ''account_sid'')
          (getenv (load_dotenv False dotenv_file environ0) ''auth_token'') = Inr client) \<longrightarrow>
        requests_of (fst (main lib dotenv_file environ0))
          @ requests_of (fst (main lib2 dotenv_file environ0)) =
        [\<lparr>to = getenv (load_dotenv False dotenv_file environ0) ''to'',
          from' = getenv (load_dotenv False dotenv_file environ0) ''from_'',
          twiml = ''<Response><Say>HOW are you</Say></Response>''\<rparr>,
         \<lparr>to = getenv (load_dotenv False dotenv_file environ0) ''to'',
          from' = getenv (load_dotenv False dotenv_file environ0) ''from_'',
          twiml = ''<Response><Say>HOW are you</Say></Response>''\<rparr>]"
    by (auto simp add: main_def Let_def split: sum.splits)
qed

theorem one_request_one_line_witness:
  "snd (main accept_any Map.empty valid_env) = Exit_ok
   \<and> length (requests_of (fst (main accept_any Map.empty valid_env))) = 1
   \<and> length (prints_of (fst (main accept_any Map.empty valid_env))) = 1
   \<and> length (fst (main accept_any Map.empty valid_env)) = 9
   \<and> ranks_of (fst (main accept_any Map.empty valid_env)) = [0, 1, 2, 3, 4]
   \<and> requests_of (fst (main accept_any Map.empty valid_env))
       @ requests_of (fst (main reject_call Map.empty valid_env)) =
     [\<lparr>to = Some ''+15550100'', from' = Some ''+15550199'',
       twiml = ''<Response><Say>HOW are you</Say></Response>''\<rparr>,
      \<lparr>to = Some ''+15550100'', from' = Some ''+15550199'',
       twiml = ''<Response><Say>HOW are you</Say></Response>''\<rparr>]"
proof -
  have a: "snd (main accept_any Map.empty valid_env) = Exit_ok"
    by (simp add: main_def Let_def accept_any_def)
  have b: "\<exists>client. Client accept_any
             (getenv (load_dotenv False Map.empty valid_env) ''account_sid'')
             (getenv (load_dotenv False Map.empty valid_env) ''auth_token'') = Inr client"
    by (simp add: accept_any_def)
  have c: "\<exists>client. Client reject_call
             (getenv (load_dotenv False Map.empty valid_env) ''account_sid'')
             (getenv (load_dotenv False Map.empty valid_env) ''auth_token'') = Inr client"
    by (simp add: reject_call_def)
  show ?thesis
    using one_request_one_line [of accept_any Map.empty valid_env reject_call] a b c
    by (simp add: load_dotenv_no_file valid_env_values)
qed

subsection \<open>Two runs\<close>

text \<open>
  C8. Two runs in which the four variables have the same values once the environment is
  loaded, and in which the library answers alike to what the script gives it (the
  constructor on the credentials, the request on each client), do the same: the same
  trace, so the same request parameters and the same standard output, and the same
  outcome. Nothing else of the environment, of the \<open>.env\<close> file or of the library has a
  part in it.
\<close>

theorem runs_deterministic:
  assumes "getenv (load_dotenv False file1 env1) ''account_sid'' =
           getenv (load_dotenv False file2 env2) ''account_sid''"
    and "getenv (load_dotenv False file1 env1) ''auth_token'' =
         getenv (load_dotenv False file2 env2) ''auth_token''"
    and "getenv (load_dotenv False file1 env1) ''to'' =
         getenv (load_dotenv False file2 env2) ''to''"
    and "getenv (load_dotenv False file1 env1) ''from_'' =
         getenv (load_dotenv False file2 env2) ''from_''"
    and "Client lib1 (getenv (load_dotenv False file1 env1) ''account_sid'')
                     (getenv (load_dotenv False file1 env1) ''auth_token'') =
         Client lib2 (getenv (load_dotenv False file1 env1) ''account_sid'')
                     (getenv (load_dotenv False file1 env1) ''auth_token'')"
    and "\<forall>client.
           calls_create lib1 client
             \<lparr>to = getenv (load_dotenv False file1 env1) ''to'',
              from' = getenv (load_dotenv False file1 env1) ''from_'',
              twiml = ''<Response><Say>HOW are you</Say></Response>''\<rparr> =
           calls_create lib2 client
             \<lparr>to = getenv (load_dotenv False file1 env1) ''to'',
              from' = getenv (load_dotenv False file1 env1) ''from_'',
              twiml = ''<Response><Say>HOW are you</Say></Response>''\<rparr>"
  shows "requests_of (fst (main lib1 file1 env1)) = requests_of (fst (main lib2 file2 env2))
       \<and> stdout_of (fst (main lib1 file1 env1)) = stdout_of (fst (main lib2 file2 env2))
       \<and> main lib1 file1 env1 = main lib2 file2 env2"
proof -
  have "main lib1 file1 env1 = main lib2 file2 env2"
    using assms by (simp add: main_def Let_def split: sum.splits)
  then show ?thesis by simp
qed

theorem runs_deterministic_witness:
  "requests_of (fst (main accept_any Map.empty valid_env)) =
     requests_of (fst (main validating dotenv_example (valid_env(''HOME'' \<mapsto> ''/root''))))
   \<and> stdout_of (fst (main accept_any Map.empty valid_env)) =
     stdout_of (fst (main validating dotenv_example (valid_env(''HOME'' \<mapsto> ''/root''))))
   \<and> stdout_of (fst (main accept_any Map.empty valid_env)) = ''Call SID: CA7d1f'' @ [CHR 0x0A]"
proof -
  have e: "getenv (load_dotenv False Map.empty valid_env) ''account_sid'' = Some ''AC01''"
    "getenv (load_dotenv False Map.empty valid_env) ''auth_token'' = Some ''secret''"
    "getenv (load_dotenv False Map.empty valid_env) ''to'' = Some ''+15550100''"
    "getenv (load_dotenv False Map.empty valid_env) ''from_'' = Some ''+15550199''"
    by (simp_all add: load_dotenv_no_file valid_env_values)
  have f: "getenv (load_dotenv False dotenv_example (valid_env(''HOME'' \<mapsto> ''/root'')))
             ''account_sid'' = Some ''AC01''"
    "getenv (load_dotenv False dotenv_example (valid_env(''HOME'' \<mapsto> ''/root'')))
             ''auth_token'' = Some ''secret''"
    "getenv (load_dotenv False dotenv_example (valid_env(''HOME'' \<mapsto> ''/root'')))
             ''to'' = Some ''+15550100''"
    "getenv (load_dotenv False dotenv_example (valid_env(''HOME'' \<mapsto> ''/root'')))
             ''from_'' = Some ''+15550199''"
    by (simp_all add: load_dotenv_def getenv_def dotenv_example_def valid_env_def)
  have g: "Client accept_any (Some ''AC01'') (Some ''secret'') =
           Client validating (Some ''AC01'') (Some ''secret'')"
    by (simp add: accept_any_def validating_def missing_or_empty_def)
  have h: "\<forall>client.
           calls_create accept_any client
             \<lparr>to = Some ''+15550100'', from' = Some ''+15550199'',
              twiml = ''<Response><Say>HOW are you</Say></Response>''\<rparr> =
           calls_create validating client
             \<lparr>to = Some ''+15550100'', from' = Some ''+15550199'',
              twiml = ''<Response><Say>HOW are you</Say></Response>''\<rparr>"
    by (simp add: accept_any_def validating_def missing_or_empty_def)
  have s: "stdout_of (fst (main accept_any Map.empty valid_env)) =
             ''Call SID: CA7d1f'' @ [CHR 0x0A]"
    by (simp add: main_def Let_def accept_any_def stdout_of_def)
  show ?thesis
    using runs_deterministic [of Map.empty valid_env dotenv_example
        "valid_env(''HOME'' \<mapsto> ''/root'')" accept_any validating] e f g h s
    by simp
qed

subsection \<open>The \<open>.env\<close> file\<close>

text \<open>
  C10. The configuration has two sources. \<open>load_dotenv\<close> is the first thing a run does,
  and every value the script passes on is read after it from the environment it leaves:
  the value of the process environment when the variable is set there, the value of the
  \<open>.env\<close> file otherwise, and \<open>None\<close> when it is in neither.
\<close>

theorem dotenv_then_environment:
  "load_dotenv False dotenv_file environ0 key =
     (case environ0 key of Some v \<Rightarrow> Some v | None \<Rightarrow> dotenv_file key)
   \<and> hd (fst (main lib dotenv_file environ0)) = Load_dotenv
   \<and> client_args_of (fst (main lib dotenv_file environ0)) =
       [(case environ0 ''account_sid'' of Some v \<Rightarrow> Some v
                                         | None \<Rightarrow> dotenv_file ''account_sid'',
         case environ0 ''auth_token'' of Some v \<Rightarrow> Some v
                                        | None \<Rightarrow> dotenv_file ''auth_token'')]
   \<and> map (\<lambda>r. (to r, from' r)) (requests_of (fst (main lib dotenv_file environ0))) =
       (case Client lib (getenv (load_dotenv False dotenv_file environ0) ''account_sid'')
                        (getenv (load_dotenv False dotenv_file environ0) ''auth_token'') of
          Inl x \<Rightarrow> []
        | Inr client \<Rightarrow>
            [(case environ0 ''to'' of Some v \<Rightarrow> Some v | None \<Rightarrow> dotenv_file ''to'',
              case environ0 ''from_'' of Some v \<Rightarrow> Some v | None \<Rightarrow> dotenv_file ''from_'')])"
proof -
  have m: "load_dotenv False dotenv_file environ0 k =
             (case environ0 k of Some v \<Rightarrow> Some v | None \<Rightarrow> dotenv_file k)" for k
    by (simp add: load_dotenv_def split: option.splits)
  show ?thesis
    by (simp add: main_def Let_def getenv_def m split: sum.splits)
qed

end
